theory Spec2Isabelle
  imports Complex_Main
begin

section \<open>Date attributes of an element: \<^verbatim>\<open>src/core/dom/parse-date-attributes.js\<close>\<close>

subsection \<open>JavaScript numbers\<close>

text \<open>
  The timestamps of the module are JavaScript numbers, the doubles of IEEE 754: \<open>NaN\<close>, the
  two infinities and the finite values, a finite value carried here by the real number
  it is. The operators \<^verbatim>\<open>+\<close> and \<^verbatim>\<open>*\<close> give the exact result rounded to the nearest double,
  to the even mantissa on a tie, and an infinity when the rounded result is out of range.

  The two zeros are one value here: \<^verbatim>\<open>+\<close> and \<^verbatim>\<open>*\<close> tell them apart in the sign of a zero
  result only, and neither truthiness nor \<^verbatim>\<open>===\<close> does.
\<close>

datatype number = NaN | PosInf | NegInf | Num real

text \<open>The number of binary digits of a natural number.\<close>

fun bitlen :: "nat \<Rightarrow> nat" where
  "bitlen n = (if n = 0 then 0 else Suc (bitlen (n div 2)))"

declare bitlen.simps [simp del]

text \<open>The power \<open>2^k\<close> for an integer \<open>k\<close>.\<close>

definition pow2 :: "int \<Rightarrow> real" where
  "pow2 k = (if 0 \<le> k then 2 ^ nat k else 1 / 2 ^ nat (- k))"

text \<open>The binary exponent of a positive real \<open>x\<close>: the \<open>e\<close> with \<open>2^e \<le> x < 2^(e+1)\<close>.\<close>

definition expo :: "real \<Rightarrow> int" where
  "expo x =
     (if 1 \<le> x then int (bitlen (nat \<lfloor>x\<rfloor>)) - 1
      else - int (bitlen (nat (\<lceil>1 / x\<rceil> - 1))))"

text \<open>The nearest integer, the even one of the two on a tie.\<close>

definition round_even :: "real \<Rightarrow> int" where
  "round_even r =
     (let f = \<lfloor>r\<rfloor>; d = r - of_int f in
      if d < 1 / 2 then f else if 1 / 2 < d then f + 1 else if even f then f else f + 1)"

text \<open>
  The double nearest to a real: doubles have a mantissa of 53 binary digits, so between
  \<open>2^e\<close> and \<open>2^(e+1)\<close> they are the multiples of \<open>2^(e-52)\<close>, and the multiples of \<open>2^(-1074)\<close>
  below \<open>2^(-1022)\<close>; a result of magnitude \<open>2^1024\<close> or more is an infinity.
\<close>

definition round_double :: "real \<Rightarrow> number" where
  "round_double x =
     (if x = 0 then Num 0
      else
        (let e = max (expo \<bar>x\<bar>) (- 1022);
             q = pow2 (e - 52);
             y = of_int (round_even (x / q)) * q
         in if 2 ^ 1024 \<le> \<bar>y\<bar> then (if 0 < x then PosInf else NegInf) else Num y))"

text \<open>The operator \<^verbatim>\<open>+\<close> on two numbers.\<close>

fun num_add :: "number \<Rightarrow> number \<Rightarrow> number" where
  "num_add (Num a) (Num b) = round_double (a + b)"
| "num_add NaN _ = NaN"
| "num_add _ NaN = NaN"
| "num_add PosInf NegInf = NaN"
| "num_add NegInf PosInf = NaN"
| "num_add PosInf _ = PosInf"
| "num_add _ PosInf = PosInf"
| "num_add NegInf _ = NegInf"
| "num_add _ NegInf = NegInf"

text \<open>The operator \<^verbatim>\<open>*\<close> on two numbers: an infinity times zero is \<open>NaN\<close>.\<close>

fun num_mul :: "number \<Rightarrow> number \<Rightarrow> number" where
  "num_mul (Num a) (Num b) = round_double (a * b)"
| "num_mul NaN _ = NaN"
| "num_mul _ NaN = NaN"
| "num_mul PosInf (Num b) = (if b = 0 then NaN else if 0 < b then PosInf else NegInf)"
| "num_mul NegInf (Num b) = (if b = 0 then NaN else if 0 < b then NegInf else PosInf)"
| "num_mul (Num a) PosInf = (if a = 0 then NaN else if 0 < a then PosInf else NegInf)"
| "num_mul (Num a) NegInf = (if a = 0 then NaN else if 0 < a then NegInf else PosInf)"
| "num_mul PosInf PosInf = PosInf"
| "num_mul PosInf NegInf = NegInf"
| "num_mul NegInf PosInf = NegInf"
| "num_mul NegInf NegInf = PosInf"

text \<open>Truthiness of a number: \<open>0\<close> and \<open>NaN\<close> are falsy, every other number is truthy.\<close>

fun truthy_number :: "number \<Rightarrow> bool" where
  "truthy_number NaN = False"
| "truthy_number (Num x) = (x \<noteq> 0)"
| "truthy_number PosInf = True"
| "truthy_number NegInf = True"

text \<open>The operator \<^verbatim>\<open>a || b\<close> on numbers: \<open>a\<close> when it is truthy, else \<open>b\<close>.\<close>

definition or_else :: "number \<Rightarrow> number \<Rightarrow> number" where
  "or_else a b = (if truthy_number a then a else b)"

subsection \<open>The host: coercion, date parsing, clock\<close>

text \<open>
  What the module takes from outside itself is a parameter of the model:
  \<^item> \<open>toNumber\<close>: the builtin \<^verbatim>\<open>Number(s)\<close> on a string;
  \<^item> \<open>parseDate\<close>: the function imported from \<^verbatim>\<open>../types/date\<close>, a module that is not
    covered here; it returns an epoch in milliseconds or \<^verbatim>\<open>null\<close>;
  \<^item> \<open>now\<close>: the value \<^verbatim>\<open>Date.now()\<close> returns at the moment of the call.
\<close>

record host =
  toNumber :: "string \<Rightarrow> number"
  parseDate :: "string \<Rightarrow> number option"
  now :: real

text \<open>
  \<^verbatim>\<open>Number(a)\<close> where \<open>a\<close> is the result of \<^verbatim>\<open>getAttribute\<close>: a string, or \<^verbatim>\<open>null\<close>,
  which the builtin coerces to \<open>0\<close>.
\<close>

definition Number :: "host \<Rightarrow> string option \<Rightarrow> number" where
  "Number h a = (case a of None \<Rightarrow> Num 0 | Some s \<Rightarrow> toNumber h s)"

subsection \<open>Elements and the attributes read from them\<close>

text \<open>
  Of an element the module uses \<^verbatim>\<open>getAttribute\<close> only: the element is the map from
  attribute names to values, \<open>None\<close> where \<^verbatim>\<open>getAttribute\<close> returns \<^verbatim>\<open>null\<close>. Every
  function that reads attributes returns, beside its outcome, the names it has passed to
  \<^verbatim>\<open>getAttribute\<close>, in the order of the calls.
\<close>

type_synonym element = "string \<rightharpoonup> string"

definition getAttribute :: "element \<Rightarrow> string \<Rightarrow> string option \<times> string list" where
  "getAttribute el name = (el name, [name])"

text \<open>The test \<^verbatim>\<open>if (attrVal)\<close>: an attribute value is truthy when it is a non-empty string.\<close>

fun truthy_attr :: "string option \<Rightarrow> bool" where
  "truthy_attr None = False"
| "truthy_attr (Some v) = (v \<noteq> [])"

subsection \<open>Errors and assertions\<close>

text \<open>
  The three failures of the module, each with the argument its message is formatted with:
  \<^item> \<open>UnknownAttributeError name\<close>: \<^verbatim>\<open>devAssert(..., 'Invalid date attribute "%s"', attrName)\<close>;
  \<^item> \<open>InvalidDateError value\<close>: \<^verbatim>\<open>userAssert(..., 'Invalid date: %s', datetime)\<close>;
  \<^item> \<open>MissingAttributeError names\<close>:
    \<^verbatim>\<open>userAssert(..., 'One of attributes [%s] is required', dateAttrs.join(', '))\<close>.
\<close>

datatype error =
    UnknownAttributeError string
  | InvalidDateError string
  | MissingAttributeError string
  | NotAParser string

text \<open>
  The fourth outcome is not a failure that the module raises. It stands for a run that
  calls, in place of a parser, a member that the registry inherits from
  \<^verbatim>\<open>Object.prototype\<close> (see below): what such a call does is the engine's (a \<^verbatim>\<open>TypeError\<close>
  for a member that is not a function, else a value that is not a timestamp), and the
  model follows the run no further.
\<close>

text \<open>
  Modelled from the spec: \<^verbatim>\<open>userAssert\<close>, imported from \<^verbatim>\<open>../assert\<close>, a module that is
  not covered here. The call sites use its result as the asserted value. In the words of
  the specification the call in \<^verbatim>\<open>parseDateAttrs\<close> fails with \<open>MissingAttributeError\<close> if
  the resolver returns \<^verbatim>\<open>null\<close>, the call in the date parsers fails with
  \<open>InvalidDateError\<close> if the value cannot be parsed (\<^verbatim>\<open>parseDate\<close> returns \<^verbatim>\<open>null\<close>), and a
  \<open>NaN\<close> goes through unflagged: the assertion fails on \<^verbatim>\<open>null\<close> and on nothing else.
\<close>

definition userAssert :: "number option \<Rightarrow> error \<Rightarrow> error + number" where
  "userAssert value e = (case value of None \<Rightarrow> Inl e | Some n \<Rightarrow> Inr n)"

text \<open>
  Modelled from the spec: \<^verbatim>\<open>devAssert\<close>, imported from \<^verbatim>\<open>../assert\<close>, a module that is
  not covered here; in the words of the specification the lookup of a name fails with
  \<open>UnknownAttributeError\<close> when the registry has nothing under it. Here the argument is
  the result of that lookup: a value, or \<^verbatim>\<open>undefined\<close> (\<open>None\<close>).
\<close>

definition devAssert :: "'a option \<Rightarrow> error \<Rightarrow> error + 'a" where
  "devAssert value e = (case value of None \<Rightarrow> Inl e | Some f \<Rightarrow> Inr f)"

subsection \<open>The registry of parsers\<close>

type_synonym DateParserDef = "string \<Rightarrow> error + number"

text \<open>
  \<^verbatim>\<open>dateAttrParsers\<close>: the five own properties of the object literal, a map from attribute
  names to parsers.
\<close>

definition dateAttrParsers :: "host \<Rightarrow> string \<rightharpoonup> DateParserDef" where
  "dateAttrParsers h =
     [''datetime'' \<mapsto> (\<lambda>datetime. userAssert (parseDate h datetime) (InvalidDateError datetime)),
      ''end-date'' \<mapsto> (\<lambda>datetime. userAssert (parseDate h datetime) (InvalidDateError datetime)),
      ''timeleft-ms'' \<mapsto> (\<lambda>timeleftMs. Inr (num_add (Num (now h)) (Number h (Some timeleftMs)))),
      ''timestamp-ms'' \<mapsto> (\<lambda>ms. Inr (Number h (Some ms))),
      ''timestamp-seconds'' \<mapsto>
         (\<lambda>timestampSeconds. Inr (num_mul (Num 1000) (Number h (Some timestampSeconds))))]"

text \<open>The five recognized attribute names.\<close>

definition recognized :: "string list" where
  "recognized =
     [''datetime'', ''end-date'', ''timeleft-ms'', ''timestamp-ms'', ''timestamp-seconds'']"

text \<open>
  An object literal inherits from \<^verbatim>\<open>Object.prototype\<close>, whose properties, by the language
  standard, have these names.
\<close>

definition objectPrototype :: "string list" where
  "objectPrototype =
     [''constructor'', ''hasOwnProperty'', ''isPrototypeOf'', ''propertyIsEnumerable'',
      ''toLocaleString'', ''toString'', ''valueOf'', ''__proto__'',
      ''__defineGetter__'', ''__defineSetter__'', ''__lookupGetter__'', ''__lookupSetter__'']"

text \<open>
  The value found under an inherited name, as the loop uses it: it is called on the
  attribute value, and that call is where the model stops.
\<close>

definition inherited :: "string \<Rightarrow> DateParserDef" where
  "inherited name = (\<lambda>attrVal. Inl (NotAParser name))"

text \<open>
  The property access \<^verbatim>\<open>dateAttrParsers[attrName]\<close>: an own property first, then the
  prototype; \<^verbatim>\<open>undefined\<close> (\<open>None\<close>) for a name that neither has. Every inherited member is
  a function or an object, so it is truthy.
\<close>

definition lookup :: "host \<Rightarrow> string \<Rightarrow> DateParserDef option" where
  "lookup h attrName =
     (case dateAttrParsers h attrName of
        Some p \<Rightarrow> Some p
      | None \<Rightarrow> if attrName \<in> set objectPrototype then Some (inherited attrName) else None)"

subsection \<open>\<^verbatim>\<open>parseEpoch\<close>\<close>

text \<open>
  The first statement of \<^verbatim>\<open>parseEpoch\<close>: \<^verbatim>\<open>dateAttrs.map\<close> looks every name up, in order,
  under \<^verbatim>\<open>devAssert\<close>; the first name under which nothing is found throws.
\<close>

fun lookup_parsers :: "host \<Rightarrow> string list \<Rightarrow> error + DateParserDef list" where
  "lookup_parsers h [] = Inr []"
| "lookup_parsers h (attrName # rest) =
     (case devAssert (lookup h attrName) (UnknownAttributeError attrName) of
        Inl e \<Rightarrow> Inl e
      | Inr p \<Rightarrow>
          (case lookup_parsers h rest of
             Inl e \<Rightarrow> Inl e
           | Inr ps \<Rightarrow> Inr (p # ps)))"

text \<open>
  The \<^verbatim>\<open>for\<close> loop of \<^verbatim>\<open>parseEpoch\<close>, over the names and their parsers side by side:
  it reads the attribute of each name and returns the result of the parser of the first
  truthy value; past the last name it returns \<^verbatim>\<open>null\<close>.
\<close>

fun scan :: "element \<Rightarrow> string list \<Rightarrow> DateParserDef list
    \<Rightarrow> (error + number option) \<times> string list" where
  "scan el (name # names) (p # ps) =
     (let (attrVal, r) = getAttribute el name in
      case (if truthy_attr attrVal then attrVal else None) of
        Some v \<Rightarrow> (map_sum id Some (p v), r)
      | None \<Rightarrow> (let (res, r') = scan el names ps in (res, r @ r')))"
| "scan el _ _ = (Inr None, [])"

definition parseEpoch :: "host \<Rightarrow> element \<Rightarrow> string list
    \<Rightarrow> (error + number option) \<times> string list" where
  "parseEpoch h element dateAttrs =
     (case lookup_parsers h dateAttrs of
        Inl e \<Rightarrow> (Inl e, [])
      | Inr parsers \<Rightarrow> scan element dateAttrs parsers)"

subsection \<open>\<^verbatim>\<open>parseDateAttrs\<close>\<close>

text \<open>\<^verbatim>\<open>Array.prototype.join\<close> on an array of strings.\<close>

fun join :: "string \<Rightarrow> string list \<Rightarrow> string" where
  "join sep [] = []"
| "join sep [x] = x"
| "join sep (x # y # ys) = x @ sep @ join sep (y # ys)"

definition parseDateAttrs :: "host \<Rightarrow> element \<Rightarrow> string list
    \<Rightarrow> (error + number) \<times> string list" where
  "parseDateAttrs h element dateAttrs =
     (case parseEpoch h element dateAttrs of
        (Inl e, r) \<Rightarrow> (Inl e, r)
      | (Inr resolved, r) \<Rightarrow>
          (case userAssert resolved (MissingAttributeError (join '', '' dateAttrs)) of
             Inl e \<Rightarrow> (Inl e, r)
           | Inr epoch \<Rightarrow>
               (let (a, r') = getAttribute element ''offset-seconds'';
                    offsetSeconds = num_mul (or_else (Number h a) (Num 0)) (Num 1000)
                in (Inr (num_add epoch offsetSeconds), r @ r'))))"

text \<open>
  The parser that the registry has under a name as its own property, applied to a value;
  \<open>None\<close> when the registry has no such property.
\<close>

definition call_parser :: "host \<Rightarrow> string \<Rightarrow> string \<Rightarrow> (error + number) option" where
  "call_parser h name v = map_option (\<lambda>p. p v) (dateAttrParsers h name)"

subsection \<open>A host for the examples\<close>

text \<open>
  The examples of the specification are evaluated on a concrete host. Its coercion reads
  the decimal integers (an optional sign, then digits) and the empty string as the
  builtin \<^verbatim>\<open>Number\<close> does, to the nearest double, and takes every other string to
  \<open>NaN\<close>; the builtin accepts more (fractions, exponents, radix prefixes, surrounding white
  space), none of which occurs in the examples.
\<close>

definition digit :: "char \<Rightarrow> nat option" where
  "digit c =
     (let k = (of_char c :: nat) in if 48 \<le> k \<and> k \<le> 57 then Some (k - 48) else None)"

fun digits :: "nat \<Rightarrow> string \<Rightarrow> nat option" where
  "digits acc [] = Some acc"
| "digits acc (c # cs) =
     (case digit c of None \<Rightarrow> None | Some d \<Rightarrow> digits (10 * acc + d) cs)"

definition decimal :: "string \<Rightarrow> nat option" where
  "decimal s = (if s = [] then None else digits 0 s)"

definition decimalNumber :: "string \<Rightarrow> number" where
  "decimalNumber s =
     (case s of
        [] \<Rightarrow> Num 0
      | c # cs \<Rightarrow>
          if c = CHR ''-'' then
            (case decimal cs of None \<Rightarrow> NaN | Some n \<Rightarrow> round_double (- real n))
          else if c = CHR ''+'' then
            (case decimal cs of None \<Rightarrow> NaN | Some n \<Rightarrow> round_double (real n))
          else (case decimal s of None \<Rightarrow> NaN | Some n \<Rightarrow> round_double (real n)))"

text \<open>
  The date parser of the example host reads the instants written
  \<^verbatim>\<open>YYYY-MM-DDTHH:MM:SSZ\<close>. First the calendar: leap years, the length of a month.
\<close>

definition isLeap :: "int \<Rightarrow> bool" where
  "isLeap y = (if y mod 400 = 0 then True else if y mod 100 = 0 then False else y mod 4 = 0)"

definition daysInMonth :: "int \<Rightarrow> int \<Rightarrow> int" where
  "daysInMonth y m =
     (if m = 2 then (if isLeap y then 29 else 28)
      else if m = 4 \<or> m = 6 \<or> m = 9 \<or> m = 11 then 30 else 31)"

text \<open>The days from 1970-01-01 to a date of the proleptic Gregorian calendar.\<close>

definition daysFromCivil :: "int \<Rightarrow> int \<Rightarrow> int \<Rightarrow> int" where
  "daysFromCivil y m d =
     (let y' = (if m \<le> 2 then y - 1 else y);
          era = y' div 400;
          yoe = y' - era * 400;
          mp = (m + 9) mod 12;
          doy = (153 * mp + 2) div 5 + d - 1;
          doe = yoe * 365 + yoe div 4 - yoe div 100 + doy
      in era * 146097 + doe - 719468)"

text \<open>The decimal number written in \<open>n\<close> characters of a string from position \<open>i\<close>.\<close>

definition field :: "string \<Rightarrow> nat \<Rightarrow> nat \<Rightarrow> int option" where
  "field s i n = map_option int (decimal (take n (drop i s)))"

text \<open>
  Modelled from the spec: \<^verbatim>\<open>parseDate\<close> of \<^verbatim>\<open>../types/date\<close>, a module that is not
  covered here, on the instants written \<^verbatim>\<open>YYYY-MM-DDTHH:MM:SSZ\<close>: the calendar date
  and the time of day in UTC, as the count of milliseconds since \<^verbatim>\<open>1970-01-01T00:00:00Z\<close>;
  \<^verbatim>\<open>null\<close> for a string that is not such an instant. With a year of four digits the
  count is an integer below \<open>2^53\<close>, which is a double.
\<close>

definition utcParseDate :: "string \<Rightarrow> number option" where
  "utcParseDate s =
     (if length s = 20 \<and> s ! 4 = CHR ''-'' \<and> s ! 7 = CHR ''-'' \<and> s ! 10 = CHR ''T''
         \<and> s ! 13 = CHR '':'' \<and> s ! 16 = CHR '':'' \<and> s ! 19 = CHR ''Z''
      then
        (case (field s 0 4, field s 5 2, field s 8 2, field s 11 2, field s 14 2, field s 17 2) of
           (Some y, Some m, Some d, Some hh, Some mm, Some ss) \<Rightarrow>
             if 1 \<le> m \<and> m \<le> 12 \<and> 1 \<le> d \<and> d \<le> daysInMonth y m
                \<and> hh \<le> 23 \<and> mm \<le> 59 \<and> ss \<le> 59
             then Some (Num (real_of_int
                    ((((daysFromCivil y m d * 24 + hh) * 60 + mm) * 60 + ss) * 1000)))
             else None
         | _ \<Rightarrow> None)
      else None)"

definition exampleHost :: host where
  "exampleHost = \<lparr>toNumber = decimalNumber, parseDate = utcParseDate, now = 1700000000000\<rparr>"

section \<open>Properties\<close>

subsection \<open>Rounding\<close>

lemma bitlen_le: "n < 2 ^ k \<Longrightarrow> bitlen n \<le> k"
proof (induction k arbitrary: n)
  case 0
  then show ?case by (simp add: bitlen.simps)
next
  case (Suc k)
  show ?case
  proof (cases "n = 0")
    case True
    then show ?thesis by (simp add: bitlen.simps)
  next
    case False
    from Suc.prems have "n div 2 < 2 ^ k" by simp
    then have "bitlen (n div 2) \<le> k" by (rule Suc.IH)
    with False show ?thesis by (subst bitlen.simps) simp
  qed
qed

lemma round_even_of_int: "round_even (of_int k) = k"
  by (simp add: round_even_def)

lemma pow2_nonpos: "pow2 (- int j) = 1 / 2 ^ j"
  by (simp add: pow2_def)

text \<open>
  The integers of magnitude below \<open>2^53\<close> are doubles: rounding leaves them as they are.
\<close>

lemma round_double_of_int:
  assumes "\<bar>n\<bar> < 2 ^ 53"
  shows "round_double (of_int n) = Num (of_int n)"
proof (cases "n = 0")
  case True
  then show ?thesis by (simp add: round_double_def)
next
  case False
  define b where "b = bitlen (nat \<bar>n\<bar>)"
  define j where "j = 53 - b"
  have abs: "\<bar>of_int n :: real\<bar> = of_int \<bar>n\<bar>" by simp
  from assms have "nat \<bar>n\<bar> < 2 ^ 53" by simp
  then have b: "b \<le> 53" unfolding b_def by (rule bitlen_le)
  from False have "1 \<le> \<bar>n\<bar>" by simp
  then have "(1::real) \<le> of_int \<bar>n\<bar>"
    using of_int_le_iff [of 1 "\<bar>n\<bar>", where ?'a = real] by simp
  then have one: "(1::real) \<le> \<bar>of_int n\<bar>" by (simp only: abs)
  have "\<lfloor>\<bar>of_int n :: real\<bar>\<rfloor> = \<bar>n\<bar>" by (simp only: abs floor_of_int)
  with one have e: "expo \<bar>of_int n\<bar> = int b - 1"
    by (simp add: expo_def b_def)
  from b have m: "max (int b - 1) (- 1022) = int b - 1" by simp
  from b have "int b - 1 - 52 = - int j" by (simp add: j_def)
  then have q: "pow2 (int b - 1 - 52) = 1 / 2 ^ j" by (simp add: pow2_nonpos)
  have d: "(of_int n :: real) / (1 / 2 ^ j) = of_int (n * 2 ^ j)" by simp
  have y: "of_int (round_even (of_int n / (1 / 2 ^ j))) * (1 / 2 ^ j) = (of_int n :: real)"
    by (simp only: d round_even_of_int) simp
  from assms have "(of_int \<bar>n\<bar> :: real) < of_int (2 ^ 53)" by (simp only: of_int_less_iff)
  then have "\<bar>of_int n :: real\<bar> < 2 ^ 53" by (simp only: abs) simp
  also have "\<dots> \<le> (2::real) ^ 1024" by (rule power_increasing) simp_all
  finally have small: "\<not> (2::real) ^ 1024 \<le> \<bar>of_int n\<bar>" by simp
  from False have "(of_int n :: real) \<noteq> 0" by simp
  then show ?thesis
    unfolding round_double_def Let_def e m q y using small by simp
qed

lemma round_double_numeral:
  "(numeral k :: int) < 2 ^ 53 \<Longrightarrow> round_double (numeral k) = Num (numeral k)"
  using round_double_of_int [of "numeral k"] by simp

lemma round_double_0: "round_double 0 = Num 0"
  by (simp add: round_double_def)

text \<open>Sums and products of integers that stay below \<open>2^53\<close> are exact.\<close>

lemma num_add_int:
  "\<bar>a + b\<bar> < 2 ^ 53 \<Longrightarrow> num_add (Num (of_int a)) (Num (of_int b)) = Num (of_int (a + b))"
  using round_double_of_int [of "a + b"] by simp

lemma num_mul_int:
  "\<bar>a * b\<bar> < 2 ^ 53 \<Longrightarrow> num_mul (Num (of_int a)) (Num (of_int b)) = Num (of_int (a * b))"
  using round_double_of_int [of "a * b"] by simp

lemmas round_eval = round_double_def expo_def round_even_def pow2_def bitlen.simps Let_def

lemmas run_eval =
  parseDateAttrs_def parseEpoch_def lookup_def dateAttrParsers_def objectPrototype_def
  inherited_def devAssert_def userAssert_def getAttribute_def Number_def or_else_def
  call_parser_def

lemmas example_eval =
  exampleHost_def decimalNumber_def decimal_def digit_def utcParseDate_def field_def
  daysInMonth_def daysFromCivil_def isLeap_def round_double_numeral round_double_0

lemma overflow_example: "num_mul (Num 1000) (Num (2 ^ 1020)) = PosInf"
  by (simp add: round_eval)

subsection \<open>The registry and the validation pass\<close>

lemma dateAttrParsers_None_iff: "dateAttrParsers h a = None \<longleftrightarrow> a \<notin> set recognized"
  by (simp add: dateAttrParsers_def recognized_def)

lemma lookup_recognized:
  "a \<in> set recognized \<Longrightarrow> lookup h a = dateAttrParsers h a"
  using dateAttrParsers_None_iff [of h a] by (auto simp: lookup_def)

lemma lookup_None_iff:
  "lookup h a = None \<longleftrightarrow> a \<notin> set recognized \<and> a \<notin> set objectPrototype"
  using dateAttrParsers_None_iff [of h a] by (auto simp: lookup_def split: option.splits)

text \<open>
  The validation pass fails on the first name that is neither one of the five nor
  inherited, and on no other name.
\<close>

lemma lookup_parsers_undefined:
  "find (\<lambda>a. a \<notin> set recognized \<and> a \<notin> set objectPrototype) names = Some m
   \<Longrightarrow> lookup_parsers h names = Inl (UnknownAttributeError m)"
proof (induction names)
  case Nil
  then show ?case by simp
next
  case (Cons a names)
  show ?case
  proof (cases "lookup h a")
    case None
    then have "a \<notin> set recognized \<and> a \<notin> set objectPrototype"
      by (simp add: lookup_None_iff)
    with Cons.prems have "m = a" by simp
    with None show ?thesis by (simp add: devAssert_def)
  next
    case (Some p)
    then have "\<not> (a \<notin> set recognized \<and> a \<notin> set objectPrototype)"
      using lookup_None_iff [of h a] by simp
    with Cons.prems
    have "find (\<lambda>a. a \<notin> set recognized \<and> a \<notin> set objectPrototype) names = Some m"
      by simp
    then have "lookup_parsers h names = Inl (UnknownAttributeError m)" by (rule Cons.IH)
    with Some show ?thesis by (simp add: devAssert_def)
  qed
qed

lemma lookup_parsers_recognized:
  "set names \<subseteq> set recognized
   \<Longrightarrow> lookup_parsers h names = Inr (map (\<lambda>a. the (dateAttrParsers h a)) names)"
proof (induction names)
  case Nil
  then show ?case by simp
next
  case (Cons a names)
  then obtain p where p: "dateAttrParsers h a = Some p"
    using dateAttrParsers_None_iff [of h a] by auto
  with Cons show ?case by (simp add: devAssert_def lookup_recognized)
qed

text \<open>The loop always runs over as many parsers as names.\<close>

lemma lookup_parsers_length:
  "lookup_parsers h names = Inr ps \<Longrightarrow> length ps = length names"
  by (induction names arbitrary: ps) (auto split: sum.splits)

text \<open>
  A name that is neither recognized nor inherited fails the call before any attribute is
  read, whatever the element.
\<close>

lemma undefined_name_fails_before_any_read:
  assumes "a \<in> set names" and "a \<notin> set recognized" and "a \<notin> set objectPrototype"
  shows "\<exists>m. parseEpoch h el names = (Inl (UnknownAttributeError m), [])
           \<and> parseDateAttrs h el names = (Inl (UnknownAttributeError m), [])"
proof -
  let ?P = "\<lambda>a. a \<notin> set recognized \<and> a \<notin> set objectPrototype"
  from assms obtain m where "find ?P names = Some m"
    by (cases "find ?P names") (auto simp: find_None_iff)
  then have "lookup_parsers h names = Inl (UnknownAttributeError m)"
    by (rule lookup_parsers_undefined)
  then show ?thesis by (auto simp: parseEpoch_def parseDateAttrs_def)
qed

subsection \<open>The loop\<close>

lemma scan_map_none:
  "find (\<lambda>a. truthy_attr (el a)) names = None
   \<Longrightarrow> scan el names (map f names) = (Inr None, names)"
  by (induction names) (auto simp: getAttribute_def split: if_splits)

lemma scan_map_first:
  "find (\<lambda>a. truthy_attr (el a)) names = Some n \<Longrightarrow> el n = Some v
   \<Longrightarrow> scan el names (map f names)
       = (map_sum id Some (f n v), takeWhile (\<lambda>a. \<not> truthy_attr (el a)) names @ [n])"
  by (induction names) (auto simp: getAttribute_def split: if_splits)

lemma scan_cong:
  "map el1 names = map el2 names \<Longrightarrow> scan el1 names ps = scan el2 names ps"
proof (induction names arbitrary: ps)
  case Nil
  then show ?case by simp
next
  case (Cons a names)
  then show ?case by (cases ps) (auto simp: getAttribute_def split: option.splits)
qed

text \<open>
  On recognized names the resolver returns \<^verbatim>\<open>null\<close> when no name has a truthy value, after
  reading every name; otherwise it returns what the parser of the first such name
  returns, after reading the names up to that one.
\<close>

lemma parseEpoch_absent:
  "set names \<subseteq> set recognized \<Longrightarrow> find (\<lambda>a. truthy_attr (el a)) names = None
   \<Longrightarrow> parseEpoch h el names = (Inr None, names)"
  by (simp add: parseEpoch_def lookup_parsers_recognized scan_map_none)

lemma parseEpoch_present:
  assumes "set names \<subseteq> set recognized"
    and "find (\<lambda>a. truthy_attr (el a)) names = Some n"
    and "el n = Some v"
  shows "\<exists>res. call_parser h n v = Some res
           \<and> parseEpoch h el names
               = (map_sum id Some res, takeWhile (\<lambda>a. \<not> truthy_attr (el a)) names @ [n])"
proof -
  from assms(2) have "n \<in> set names" by (auto simp: find_Some_iff)
  with assms(1) obtain p where p: "dateAttrParsers h n = Some p"
    using dateAttrParsers_None_iff [of h n] by auto
  have "parseEpoch h el names = scan el names (map (\<lambda>a. the (dateAttrParsers h a)) names)"
    using assms(1) by (simp add: parseEpoch_def lookup_parsers_recognized)
  also have "\<dots> = (map_sum id Some (the (dateAttrParsers h n) v),
                   takeWhile (\<lambda>a. \<not> truthy_attr (el a)) names @ [n])"
    using assms(2,3) by (rule scan_map_first)
  finally show ?thesis using p by (simp add: call_parser_def)
qed

lemma find_truthy_value:
  "find (\<lambda>a. truthy_attr (el a)) names = Some n \<Longrightarrow> \<exists>v. el n = Some v \<and> v \<noteq> []"
  by (cases "el n") (auto simp: find_Some_iff)

subsection \<open>The parsers\<close>

text \<open>The only failure of a parser is \<open>InvalidDateError\<close>, on the value it was given.\<close>

lemma call_parser_error:
  "call_parser h n v = Some (Inl e) \<Longrightarrow> e = InvalidDateError v"
  by (auto simp: call_parser_def dateAttrParsers_def userAssert_def
      split: if_splits option.splits)

lemma datetime_parser:
  "call_parser h ''datetime'' v = Some (userAssert (parseDate h v) (InvalidDateError v))"
  "call_parser h ''end-date'' v = Some (userAssert (parseDate h v) (InvalidDateError v))"
  by (simp_all add: call_parser_def dateAttrParsers_def)

lemma numeric_parsers:
  "call_parser h ''timeleft-ms'' v = Some (Inr (num_add (Num (now h)) (toNumber h v)))"
  "call_parser h ''timestamp-ms'' v = Some (Inr (toNumber h v))"
  "call_parser h ''timestamp-seconds'' v = Some (Inr (num_mul (Num 1000) (toNumber h v)))"
  by (simp_all add: call_parser_def dateAttrParsers_def Number_def)

subsection \<open>The ways out of \<^verbatim>\<open>parseDateAttrs\<close>\<close>

lemma parseDateAttrs_error:
  "parseEpoch h el names = (Inl e, r) \<Longrightarrow> parseDateAttrs h el names = (Inl e, r)"
  by (simp add: parseDateAttrs_def)

lemma parseDateAttrs_null:
  "parseEpoch h el names = (Inr None, r)
   \<Longrightarrow> parseDateAttrs h el names = (Inl (MissingAttributeError (join '', '' names)), r)"
  by (simp add: parseDateAttrs_def userAssert_def)

lemma parseDateAttrs_epoch:
  "parseEpoch h el names = (Inr (Some E), r)
   \<Longrightarrow> parseDateAttrs h el names
       = (Inr (num_add E
                 (num_mul (or_else (Number h (el ''offset-seconds'')) (Num 0)) (Num 1000))),
          r @ [''offset-seconds''])"
  by (simp add: parseDateAttrs_def userAssert_def getAttribute_def)

text \<open>The offset counts for \<open>0\<close> when the attribute is absent or its number is \<open>NaN\<close>.\<close>

lemma offset_default:
  "el ''offset-seconds'' = None \<Longrightarrow> or_else (Number h (el ''offset-seconds'')) (Num 0) = Num 0"
  "el ''offset-seconds'' = Some v \<Longrightarrow> toNumber h v = NaN
   \<Longrightarrow> or_else (Number h (el ''offset-seconds'')) (Num 0) = Num 0"
  by (simp_all add: or_else_def Number_def)

subsection \<open>The examples of the specification\<close>

lemma example_datetime:
  "parseDateAttrs exampleHost [''datetime'' \<mapsto> ''2023-01-01T00:00:00Z''] [''datetime'']
     = (Inr (Num 1672531200000), [''datetime'', ''offset-seconds''])"
  by (simp add: run_eval example_eval)

lemma example_offset:
  "parseDateAttrs exampleHost [''timestamp-ms'' \<mapsto> ''5000'', ''offset-seconds'' \<mapsto> ''2'']
      [''timestamp-ms'']
     = (Inr (Num 7000), [''timestamp-ms'', ''offset-seconds''])"
  by (simp add: run_eval example_eval)

lemma example_offset_not_numeric:
  "parseDateAttrs exampleHost [''timestamp-ms'' \<mapsto> ''5000'', ''offset-seconds'' \<mapsto> ''soon'']
      [''timestamp-ms'']
     = (Inr (Num 5000), [''timestamp-ms'', ''offset-seconds''])"
  by (simp add: run_eval example_eval)

text \<open>
  The names \<^verbatim>\<open>["timestamp-ms", "datetime"]\<close>: a truthy \<^verbatim>\<open>timestamp-ms\<close> is the result,
  whatever \<^verbatim>\<open>datetime\<close> is on the element, which is not read.
\<close>

lemma timestamp_ms_before_datetime:
  "el ''timestamp-ms'' = Some v \<Longrightarrow> v \<noteq> []
   \<Longrightarrow> parseEpoch h el [''timestamp-ms'', ''datetime'']
       = (Inr (Some (toNumber h v)), [''timestamp-ms''])"
  by (simp add: run_eval)

section \<open>The claims\<close>

subsection \<open>Validation before any read\<close>

text \<open>
  Claim C1. The claim: a name that is not one of the five recognized names makes the
  call fail with \<open>UnknownAttributeError\<close> before any attribute is read. The code on the
  names \<^verbatim>\<open>["timestamp-ms", "constructor"]\<close> and an element with \<^verbatim>\<open>timestamp-ms="5000"\<close>:
  \<^verbatim>\<open>constructor\<close> is not one of the five, but the registry inherits a member of that name
  from \<^verbatim>\<open>Object.prototype\<close>, the assertion on the lookup holds, the loop reads
  \<^verbatim>\<open>timestamp-ms\<close>, and the call returns \<open>5000\<close>. On an element without attributes the
  names \<^verbatim>\<open>["constructor"]\<close> give \<^verbatim>\<open>null\<close>, after a read. (A name that is neither recognized
  nor inherited does fail before any read: \<open>undefined_name_fails_before_any_read\<close>.)
\<close>

theorem inherited_name_passes_validation:
  "''constructor'' \<notin> set recognized
   \<and> parseEpoch exampleHost [''timestamp-ms'' \<mapsto> ''5000''] [''timestamp-ms'', ''constructor'']
       = (Inr (Some (Num 5000)), [''timestamp-ms''])
   \<and> parseDateAttrs exampleHost [''timestamp-ms'' \<mapsto> ''5000''] [''timestamp-ms'', ''constructor'']
       = (Inr (Num 5000), [''timestamp-ms'', ''offset-seconds''])
   \<and> parseEpoch exampleHost Map.empty [''constructor''] = (Inr None, [''constructor''])"
  by (simp add: run_eval example_eval recognized_def)

subsection \<open>The required attribute\<close>

text \<open>
  Claim C2. On a list of recognized names, \<^verbatim>\<open>parseDateAttrs\<close> fails with
  \<open>MissingAttributeError\<close> exactly when the resolver returns \<^verbatim>\<open>null\<close>, which is exactly when
  no name of the list has a truthy attribute (present and not empty); the error then
  lists the names, joined. When the resolver returns an epoch, \<^verbatim>\<open>parseDateAttrs\<close> returns
  a timestamp.
\<close>

theorem missing_attribute_iff_resolver_null:
  assumes "set names \<subseteq> set recognized"
  shows "((\<exists>m. fst (parseDateAttrs h el names) = Inl (MissingAttributeError m))
            \<longleftrightarrow> fst (parseEpoch h el names) = Inr None)
     \<and> (fst (parseEpoch h el names) = Inr None
            \<longleftrightarrow> find (\<lambda>a. truthy_attr (el a)) names = None)
     \<and> (fst (parseEpoch h el names) = Inr None
            \<longrightarrow> fst (parseDateAttrs h el names)
                  = Inl (MissingAttributeError (join '', '' names)))
     \<and> (\<forall>E. fst (parseEpoch h el names) = Inr (Some E)
            \<longrightarrow> (\<exists>t. fst (parseDateAttrs h el names) = Inr t))"
proof (cases "find (\<lambda>a. truthy_attr (el a)) names")
  case None
  with assms have "parseEpoch h el names = (Inr None, names)" by (rule parseEpoch_absent)
  moreover from this
  have "parseDateAttrs h el names = (Inl (MissingAttributeError (join '', '' names)), names)"
    by (rule parseDateAttrs_null)
  ultimately show ?thesis using None by simp
next
  case (Some n)
  from find_truthy_value [OF Some] obtain v where v: "el n = Some v" by auto
  define r where "r = takeWhile (\<lambda>a. \<not> truthy_attr (el a)) names @ [n]"
  from parseEpoch_present [OF assms Some v, of h]
  obtain res where res: "call_parser h n v = Some res"
    and p: "parseEpoch h el names = (map_sum id Some res, r)"
    unfolding r_def by auto
  show ?thesis
  proof (cases res)
    case (Inl e)
    with res have "e = InvalidDateError v" by (simp add: call_parser_error)
    with Inl p have "parseEpoch h el names = (Inl (InvalidDateError v), r)" by simp
    moreover from this have "parseDateAttrs h el names = (Inl (InvalidDateError v), r)"
      by (rule parseDateAttrs_error)
    ultimately show ?thesis using Some by simp
  next
    case (Inr E)
    with p have "parseEpoch h el names = (Inr (Some E), r)" by simp
    moreover from this have "\<exists>t. parseDateAttrs h el names = (Inr t, r @ [''offset-seconds''])"
      by (simp add: parseDateAttrs_epoch)
    ultimately show ?thesis using Some by auto
  qed
qed

text \<open>
  The names \<^verbatim>\<open>["timestamp-ms", "datetime"]\<close>: an element that has neither fails, and the
  error lists both names; an element with \<^verbatim>\<open>timestamp-ms="0"\<close> has the epoch \<open>0\<close>.
\<close>

theorem missing_attribute_iff_resolver_null_witness:
  "set [''timestamp-ms'', ''datetime''] \<subseteq> set recognized
   \<and> parseEpoch exampleHost [''id'' \<mapsto> ''x''] [''timestamp-ms'', ''datetime'']
       = (Inr None, [''timestamp-ms'', ''datetime''])
   \<and> fst (parseDateAttrs exampleHost [''id'' \<mapsto> ''x''] [''timestamp-ms'', ''datetime''])
       = Inl (MissingAttributeError ''timestamp-ms, datetime'')
   \<and> parseEpoch exampleHost [''timestamp-ms'' \<mapsto> ''0''] [''timestamp-ms'', ''datetime'']
       = (Inr (Some (Num 0)), [''timestamp-ms''])
   \<and> fst (parseDateAttrs exampleHost [''timestamp-ms'' \<mapsto> ''0''] [''timestamp-ms'', ''datetime''])
       = Inr (Num 0)"
proof -
  let ?names = "[''timestamp-ms'', ''datetime'']"
  have a: "set ?names \<subseteq> set recognized" by (simp add: recognized_def)
  have b: "parseEpoch exampleHost [''id'' \<mapsto> ''x''] ?names = (Inr None, ?names)"
    by (simp add: run_eval example_eval)
  have c: "parseEpoch exampleHost [''timestamp-ms'' \<mapsto> ''0''] ?names
       = (Inr (Some (Num 0)), [''timestamp-ms''])"
    by (simp add: run_eval example_eval)
  have d: "fst (parseDateAttrs exampleHost [''timestamp-ms'' \<mapsto> ''0''] ?names) = Inr (Num 0)"
    by (simp add: run_eval example_eval)
  from missing_attribute_iff_resolver_null [OF a, of exampleHost "[''id'' \<mapsto> ''x'']"] b
  have "fst (parseDateAttrs exampleHost [''id'' \<mapsto> ''x''] ?names)
       = Inl (MissingAttributeError (join '', '' ?names))"
    by simp
  then have "fst (parseDateAttrs exampleHost [''id'' \<mapsto> ''x''] ?names)
       = Inl (MissingAttributeError ''timestamp-ms, datetime'')"
    by simp
  with a b c d show ?thesis by blast
qed

subsection \<open>The first truthy attribute\<close>

text \<open>
  Claim C3. On a list of recognized names of which \<open>n\<close> is the first whose attribute is
  truthy (present and not empty), with value \<open>v\<close>, the resolver returns what the parser
  of \<open>n\<close> returns on \<open>v\<close>; it has read the names before \<open>n\<close> and \<open>n\<close>, and none after it.
\<close>

theorem first_truthy_name_wins:
  assumes "set names \<subseteq> set recognized"
    and "find (\<lambda>a. truthy_attr (el a)) names = Some n"
    and "el n = Some v"
  shows "\<exists>res. call_parser h n v = Some res
           \<and> parseEpoch h el names
               = (map_sum id Some res, takeWhile (\<lambda>a. \<not> truthy_attr (el a)) names @ [n])"
  using assms by (rule parseEpoch_present)

text \<open>
  The names \<^verbatim>\<open>["timestamp-ms", "datetime"]\<close> on an element with both attributes, the
  second one not a date: its parser would fail, and the result is that of
  \<^verbatim>\<open>timestamp-ms\<close>.
\<close>

theorem first_truthy_name_wins_witness:
  "set [''timestamp-ms'', ''datetime''] \<subseteq> set recognized
   \<and> find (\<lambda>a. truthy_attr ([''timestamp-ms'' \<mapsto> ''5000'', ''datetime'' \<mapsto> ''soon''] a))
        [''timestamp-ms'', ''datetime''] = Some ''timestamp-ms''
   \<and> [''timestamp-ms'' \<mapsto> ''5000'', ''datetime'' \<mapsto> ''soon''] ''timestamp-ms'' = Some ''5000''
   \<and> call_parser exampleHost ''datetime'' ''soon'' = Some (Inl (InvalidDateError ''soon''))
   \<and> parseEpoch exampleHost [''timestamp-ms'' \<mapsto> ''5000'', ''datetime'' \<mapsto> ''soon'']
        [''timestamp-ms'', ''datetime'']
       = (Inr (Some (Num 5000)), [''timestamp-ms''])"
proof -
  let ?el = "[''timestamp-ms'' \<mapsto> ''5000'', ''datetime'' \<mapsto> ''soon'']"
  have a: "set [''timestamp-ms'', ''datetime''] \<subseteq> set recognized"
    by (simp add: recognized_def)
  have b: "find (\<lambda>a. truthy_attr (?el a)) [''timestamp-ms'', ''datetime''] = Some ''timestamp-ms''"
    by simp
  have c: "?el ''timestamp-ms'' = Some ''5000''" by simp
  have d: "call_parser exampleHost ''datetime'' ''soon'' = Some (Inl (InvalidDateError ''soon''))"
    by (simp add: run_eval example_eval)
  have e: "call_parser exampleHost ''timestamp-ms'' ''5000'' = Some (Inr (Num 5000))"
    by (simp add: run_eval example_eval)
  from first_truthy_name_wins [OF a b c, of exampleHost]
  obtain res where r: "call_parser exampleHost ''timestamp-ms'' ''5000'' = Some res"
    and p: "parseEpoch exampleHost ?el [''timestamp-ms'', ''datetime'']
              = (map_sum id Some res,
                 takeWhile (\<lambda>a. \<not> truthy_attr (?el a)) [''timestamp-ms'', ''datetime'']
                   @ [''timestamp-ms''])"
    by blast
  from r e have "res = Inr (Num 5000)" by simp
  moreover have "takeWhile (\<lambda>a. \<not> truthy_attr (?el a)) [''timestamp-ms'', ''datetime''] = []"
    by simp
  ultimately have "parseEpoch exampleHost ?el [''timestamp-ms'', ''datetime'']
      = (Inr (Some (Num 5000)), [''timestamp-ms''])"
    using p by simp
  with a b c d show ?thesis by blast
qed

subsection \<open>Values that are not numeric\<close>

text \<open>
  Claim C4. When the first truthy attribute of a list of recognized names is
  \<^verbatim>\<open>timeleft-ms\<close>, \<^verbatim>\<open>timestamp-ms\<close> or \<^verbatim>\<open>timestamp-seconds\<close> and its value is not numeric
  (its number is \<open>NaN\<close>), no error is raised: the parser returns \<open>NaN\<close>, the resolver
  returns \<open>NaN\<close>, and \<^verbatim>\<open>parseDateAttrs\<close> returns \<open>NaN\<close> to its caller.
\<close>

theorem nan_reaches_the_caller:
  assumes "set names \<subseteq> set recognized"
    and "find (\<lambda>a. truthy_attr (el a)) names = Some n"
    and "n = ''timeleft-ms'' \<or> n = ''timestamp-ms'' \<or> n = ''timestamp-seconds''"
    and "el n = Some v"
    and "toNumber h v = NaN"
  shows "call_parser h n v = Some (Inr NaN)
     \<and> fst (parseEpoch h el names) = Inr (Some NaN)
     \<and> fst (parseDateAttrs h el names) = Inr NaN"
proof -
  from assms(3,5) have c: "call_parser h n v = Some (Inr NaN)"
    by (auto simp: numeric_parsers)
  from parseEpoch_present [OF assms(1,2,4), of h] c
  obtain r where p: "parseEpoch h el names = (Inr (Some NaN), r)" by auto
  then have "parseDateAttrs h el names = (Inr NaN, r @ [''offset-seconds''])"
    by (simp add: parseDateAttrs_epoch)
  with c p show ?thesis by simp
qed

theorem nan_reaches_the_caller_witness:
  "set [''timestamp-ms''] \<subseteq> set recognized
   \<and> find (\<lambda>a. truthy_attr ([''timestamp-ms'' \<mapsto> ''abc''] a)) [''timestamp-ms'']
       = Some ''timestamp-ms''
   \<and> [''timestamp-ms'' \<mapsto> ''abc''] ''timestamp-ms'' = Some ''abc''
   \<and> toNumber exampleHost ''abc'' = NaN
   \<and> fst (parseEpoch exampleHost [''timestamp-ms'' \<mapsto> ''abc''] [''timestamp-ms''])
       = Inr (Some NaN)
   \<and> fst (parseDateAttrs exampleHost [''timestamp-ms'' \<mapsto> ''abc''] [''timestamp-ms''])
       = Inr NaN"
proof -
  let ?el = "[''timestamp-ms'' \<mapsto> ''abc'']"
  have a: "set [''timestamp-ms''] \<subseteq> set recognized" by (simp add: recognized_def)
  have b: "find (\<lambda>a. truthy_attr (?el a)) [''timestamp-ms''] = Some ''timestamp-ms''" by simp
  have c: "''timestamp-ms'' = ''timeleft-ms'' \<or> ''timestamp-ms'' = ''timestamp-ms''
      \<or> ''timestamp-ms'' = ''timestamp-seconds''" by simp
  have d: "?el ''timestamp-ms'' = Some ''abc''" by simp
  have e: "toNumber exampleHost ''abc'' = NaN" by (simp add: example_eval)
  from nan_reaches_the_caller [OF a b c d e] a b d e show ?thesis by blast
qed

subsection \<open>The offset\<close>

text \<open>
  Claim C5, as stated: the call returns \<open>E + 1000 * s\<close> for the resolved epoch \<open>E\<close> and
  the number \<open>s\<close> of \<^verbatim>\<open>offset-seconds\<close>. The sum of the code is a sum of doubles: at
  \<^verbatim>\<open>timestamp-ms="72057594037927936"\<close> (\<open>2^56\<close>, where doubles are sixteen apart) and
  \<^verbatim>\<open>offset-seconds="1"\<close> the call returns \<open>72057594037928928\<close>, which is not
  \<open>72057594037927936 + 1000 * 1\<close>.
\<close>

theorem offset_sum_is_rounded:
  "parseEpoch exampleHost
      [''timestamp-ms'' \<mapsto> ''72057594037927936'', ''offset-seconds'' \<mapsto> ''1''] [''timestamp-ms'']
     = (Inr (Some (Num 72057594037927936)), [''timestamp-ms''])
   \<and> toNumber exampleHost ''1'' = Num 1
   \<and> parseDateAttrs exampleHost
      [''timestamp-ms'' \<mapsto> ''72057594037927936'', ''offset-seconds'' \<mapsto> ''1''] [''timestamp-ms'']
     = (Inr (Num 72057594037928928), [''timestamp-ms'', ''offset-seconds''])
   \<and> (72057594037928928 :: real) \<noteq> 72057594037927936 + 1000 * 1"
  by (simp add: run_eval example_eval round_eval)

text \<open>
  Claim C5, amended. When a candidate resolves to the epoch \<open>E\<close>, \<^verbatim>\<open>parseDateAttrs\<close> reads
  \<^verbatim>\<open>offset-seconds\<close> and returns the sum, in the arithmetic of doubles, of \<open>E\<close> and the
  product of \<open>s\<close> and \<open>1000\<close>, where \<open>s\<close> is the number of \<^verbatim>\<open>offset-seconds\<close>, or \<open>0\<close> when
  the attribute is absent or is not numeric. When \<open>E\<close> and \<open>s\<close> are integers and the product
  and the sum are of magnitude below \<open>2^53\<close>, that is \<open>E + 1000 * s\<close> exactly.
\<close>

theorem offset_added_to_epoch:
  assumes "parseEpoch h el names = (Inr (Some E), r)"
  shows "parseDateAttrs h el names
       = (Inr (num_add E
                 (num_mul (or_else (Number h (el ''offset-seconds'')) (Num 0)) (Num 1000))),
          r @ [''offset-seconds''])
     \<and> (el ''offset-seconds'' = None
          \<longrightarrow> or_else (Number h (el ''offset-seconds'')) (Num 0) = Num 0)
     \<and> (\<forall>v. el ''offset-seconds'' = Some v \<and> toNumber h v = NaN
          \<longrightarrow> or_else (Number h (el ''offset-seconds'')) (Num 0) = Num 0)
     \<and> (\<forall>e s. E = Num (of_int e)
            \<and> or_else (Number h (el ''offset-seconds'')) (Num 0) = Num (of_int s)
            \<and> \<bar>s * 1000\<bar> < 2 ^ 53 \<and> \<bar>e + s * 1000\<bar> < 2 ^ 53
          \<longrightarrow> fst (parseDateAttrs h el names) = Inr (Num (of_int (e + 1000 * s))))"
proof -
  let ?s = "or_else (Number h (el ''offset-seconds'')) (Num 0)"
  have sum: "parseDateAttrs h el names
       = (Inr (num_add E (num_mul ?s (Num 1000))), r @ [''offset-seconds''])"
    using assms by (rule parseDateAttrs_epoch)
  have exact: "fst (parseDateAttrs h el names) = Inr (Num (of_int (e + 1000 * s)))"
    if "E = Num (of_int e)" and "?s = Num (of_int s)"
      and "\<bar>s * 1000\<bar> < 2 ^ 53" and "\<bar>e + s * 1000\<bar> < 2 ^ 53" for e s
  proof -
    have "num_mul (Num (of_int s)) (Num (of_int 1000)) = Num (of_int (s * 1000))"
      using that(3) by (rule num_mul_int)
    moreover have "num_add (Num (of_int e)) (Num (of_int (s * 1000)))
        = Num (of_int (e + s * 1000))"
      using that(4) by (rule num_add_int)
    ultimately show ?thesis using sum that(1,2) by (simp add: mult.commute)
  qed
  have d1: "el ''offset-seconds'' = None \<longrightarrow> ?s = Num 0"
    by (simp add: or_else_def Number_def)
  have d2: "\<forall>v. el ''offset-seconds'' = Some v \<and> toNumber h v = NaN \<longrightarrow> ?s = Num 0"
    by (simp add: or_else_def Number_def)
  from sum exact d1 d2 show ?thesis by blast
qed

text \<open>The example of the specification: \<open>5000\<close> and an offset of two seconds give \<open>7000\<close>.\<close>

theorem offset_added_to_epoch_witness:
  "parseEpoch exampleHost [''timestamp-ms'' \<mapsto> ''5000'', ''offset-seconds'' \<mapsto> ''2'']
      [''timestamp-ms'']
     = (Inr (Some (Num 5000)), [''timestamp-ms''])
   \<and> toNumber exampleHost ''2'' = Num 2
   \<and> parseDateAttrs exampleHost [''timestamp-ms'' \<mapsto> ''5000'', ''offset-seconds'' \<mapsto> ''2'']
      [''timestamp-ms'']
     = (Inr (Num 7000), [''timestamp-ms'', ''offset-seconds''])"
proof -
  let ?el = "[''timestamp-ms'' \<mapsto> ''5000'', ''offset-seconds'' \<mapsto> ''2'']"
  have a: "parseEpoch exampleHost ?el [''timestamp-ms'']
      = (Inr (Some (Num 5000)), [''timestamp-ms''])"
    by (simp add: run_eval example_eval)
  have b: "toNumber exampleHost ''2'' = Num 2" by (simp add: example_eval)
  have c: "num_add (Num 5000)
      (num_mul (or_else (Number exampleHost (?el ''offset-seconds'')) (Num 0)) (Num 1000))
      = Num 7000"
    by (simp add: Number_def or_else_def example_eval)
  from offset_added_to_epoch [OF a]
  have "parseDateAttrs exampleHost ?el [''timestamp-ms'']
      = (Inr (num_add (Num 5000)
           (num_mul (or_else (Number exampleHost (?el ''offset-seconds'')) (Num 0)) (Num 1000))),
         [''timestamp-ms''] @ [''offset-seconds''])"
    by blast
  with a b c show ?thesis by simp
qed

subsection \<open>Dates\<close>

text \<open>
  Claim C6. The parser of \<^verbatim>\<open>datetime\<close> and of \<^verbatim>\<open>end-date\<close> fails with \<open>InvalidDateError\<close>
  exactly when the value cannot be parsed as a date (\<^verbatim>\<open>parseDate\<close> returns \<^verbatim>\<open>null\<close>), and
  returns the epoch that \<^verbatim>\<open>parseDate\<close> gives otherwise; so do the resolver and
  \<^verbatim>\<open>parseDateAttrs\<close> on an element that has the attribute, not empty.
\<close>

theorem invalid_date_iff_unparsable:
  assumes "n = ''datetime'' \<or> n = ''end-date''"
  shows "(call_parser h n v = Some (Inl (InvalidDateError v)) \<longleftrightarrow> parseDate h v = None)
     \<and> (\<forall>t. parseDate h v = Some t \<longrightarrow> call_parser h n v = Some (Inr t))
     \<and> (el n = Some v \<and> v \<noteq> [] \<and> parseDate h v = None
          \<longrightarrow> parseDateAttrs h el [n] = (Inl (InvalidDateError v), [n]))
     \<and> (\<forall>t. el n = Some v \<and> v \<noteq> [] \<and> parseDate h v = Some t
          \<longrightarrow> parseEpoch h el [n] = (Inr (Some t), [n]))"
proof -
  from assms have c: "call_parser h n v = Some (userAssert (parseDate h v) (InvalidDateError v))"
    by (auto simp: datetime_parser)
  from assms have n: "set [n] \<subseteq> set recognized" by (auto simp: recognized_def)
  have e: "parseEpoch h el [n]
      = (map_sum id Some (userAssert (parseDate h v) (InvalidDateError v)), [n])"
    if "el n = Some v" and "v \<noteq> []"
  proof -
    from that have f: "find (\<lambda>a. truthy_attr (el a)) [n] = Some n" by simp
    from parseEpoch_present [OF n f that(1), of h] c that show ?thesis by auto
  qed
  have "parseDateAttrs h el [n] = (Inl (InvalidDateError v), [n])"
    if "el n = Some v" and "v \<noteq> []" and "parseDate h v = None"
    using e [OF that(1,2)] that(3) by (simp add: userAssert_def parseDateAttrs_error)
  moreover have "parseEpoch h el [n] = (Inr (Some t), [n])"
    if "el n = Some v" and "v \<noteq> []" and "parseDate h v = Some t" for t
    using e [OF that(1,2)] that(3) by (simp add: userAssert_def)
  ultimately show ?thesis using c by (auto simp: userAssert_def split: option.splits)
qed

text \<open>
  The example of the specification: \<^verbatim>\<open>datetime="2023-01-01T00:00:00Z"\<close> yields the epoch of
  that instant, \<open>1672531200000\<close>, with no offset; a value that is not a date fails.
\<close>

theorem invalid_date_iff_unparsable_witness:
  "(''datetime'' = ''datetime'' \<or> ''datetime'' = ''end-date'')
   \<and> parseDate exampleHost ''2023-01-01T00:00:00Z'' = Some (Num 1672531200000)
   \<and> call_parser exampleHost ''datetime'' ''2023-01-01T00:00:00Z''
       = Some (Inr (Num 1672531200000))
   \<and> parseDateAttrs exampleHost [''datetime'' \<mapsto> ''2023-01-01T00:00:00Z''] [''datetime'']
       = (Inr (Num 1672531200000), [''datetime'', ''offset-seconds''])
   \<and> parseDate exampleHost ''soon'' = None
   \<and> call_parser exampleHost ''datetime'' ''soon'' = Some (Inl (InvalidDateError ''soon''))"
proof -
  have a: "''datetime'' = ''datetime'' \<or> ''datetime'' = ''end-date''" by simp
  have b: "parseDate exampleHost ''2023-01-01T00:00:00Z'' = Some (Num 1672531200000)"
    by (simp add: example_eval)
  have c: "parseDate exampleHost ''soon'' = None" by (simp add: example_eval)
  have d: "parseDateAttrs exampleHost [''datetime'' \<mapsto> ''2023-01-01T00:00:00Z''] [''datetime'']
       = (Inr (Num 1672531200000), [''datetime'', ''offset-seconds''])"
    by (simp add: run_eval example_eval)
  from invalid_date_iff_unparsable [OF a, of exampleHost "''2023-01-01T00:00:00Z''"] b
  have e: "call_parser exampleHost ''datetime'' ''2023-01-01T00:00:00Z''
       = Some (Inr (Num 1672531200000))"
    by blast
  from invalid_date_iff_unparsable [OF a, of exampleHost "''soon''"] c
  have f: "call_parser exampleHost ''datetime'' ''soon'' = Some (Inl (InvalidDateError ''soon''))"
    by blast
  from a b c d e f show ?thesis by blast
qed

subsection \<open>Seconds\<close>

text \<open>
  Claim C7, as stated: the resolved epoch is the numeric value of \<^verbatim>\<open>timestamp-seconds\<close>
  multiplied by \<open>1000\<close>. The product of the code is a product of doubles: at
  \<^verbatim>\<open>timestamp-seconds="9007199254740991"\<close>, a numeric string whose value is that integer,
  the resolved epoch is \<open>9007199254740990976\<close>, which is not \<open>1000 * 9007199254740991\<close>.
\<close>

theorem seconds_product_is_rounded:
  "toNumber exampleHost ''9007199254740991'' = Num 9007199254740991
   \<and> parseEpoch exampleHost [''timestamp-seconds'' \<mapsto> ''9007199254740991'']
        [''timestamp-seconds'']
       = (Inr (Some (Num 9007199254740990976)), [''timestamp-seconds''])
   \<and> (9007199254740990976 :: real) \<noteq> 1000 * 9007199254740991"
  by (simp add: run_eval example_eval round_eval)

text \<open>
  Claim C7, amended. When the attribute \<^verbatim>\<open>timestamp-seconds\<close> has the non-empty value \<open>s\<close>
  and \<open>s\<close> is numeric, of value \<open>x\<close>, the parser and the resolver return \<open>1000 * x\<close>
  rounded to the nearest double (an infinity when that is out of range). When \<open>x\<close> is an
  integer and \<open>1000 * x\<close> is of magnitude below \<open>2^53\<close>, that is \<open>1000 * x\<close> exactly.
\<close>

theorem timestamp_seconds_times_1000:
  assumes "el ''timestamp-seconds'' = Some s" and "s \<noteq> []" and "toNumber h s = Num x"
  shows "call_parser h ''timestamp-seconds'' s = Some (Inr (round_double (1000 * x)))
     \<and> parseEpoch h el [''timestamp-seconds'']
         = (Inr (Some (round_double (1000 * x))), [''timestamp-seconds''])
     \<and> (\<forall>k. x = of_int k \<and> \<bar>1000 * k\<bar> < 2 ^ 53
          \<longrightarrow> round_double (1000 * x) = Num (1000 * x))"
proof -
  have "round_double (1000 * x) = Num (1000 * x)"
    if "x = of_int k" and "\<bar>1000 * k\<bar> < 2 ^ 53" for k
    using round_double_of_int [OF that(2)] that(1) by simp
  moreover from assms
  have "call_parser h ''timestamp-seconds'' s = Some (Inr (round_double (1000 * x)))"
    by (simp add: numeric_parsers)
  moreover from assms
  have "parseEpoch h el [''timestamp-seconds'']
         = (Inr (Some (round_double (1000 * x))), [''timestamp-seconds''])"
    by (simp add: run_eval)
  ultimately show ?thesis by blast
qed

text \<open>The example of the specification: \<^verbatim>\<open>timestamp-seconds="10"\<close> yields \<open>10000\<close>.\<close>

theorem timestamp_seconds_times_1000_witness:
  "[''timestamp-seconds'' \<mapsto> ''10''] ''timestamp-seconds'' = Some ''10'' \<and> ''10'' \<noteq> []
   \<and> toNumber exampleHost ''10'' = Num 10
   \<and> parseEpoch exampleHost [''timestamp-seconds'' \<mapsto> ''10''] [''timestamp-seconds'']
       = (Inr (Some (Num 10000)), [''timestamp-seconds''])
   \<and> parseDateAttrs exampleHost [''timestamp-seconds'' \<mapsto> ''10''] [''timestamp-seconds'']
       = (Inr (Num 10000), [''timestamp-seconds'', ''offset-seconds''])"
proof -
  have a: "[''timestamp-seconds'' \<mapsto> ''10''] ''timestamp-seconds'' = Some ''10''" by simp
  have b: "''10'' \<noteq> []" by simp
  have c: "toNumber exampleHost ''10'' = Num 10" by (simp add: example_eval)
  have d: "parseDateAttrs exampleHost [''timestamp-seconds'' \<mapsto> ''10''] [''timestamp-seconds'']
       = (Inr (Num 10000), [''timestamp-seconds'', ''offset-seconds''])"
    by (simp add: run_eval example_eval)
  have e: "round_double (1000 * 10) = Num 10000" by (simp add: example_eval)
  from timestamp_seconds_times_1000
    [of "[''timestamp-seconds'' \<mapsto> ''10'']" "''10''" exampleHost 10] a b c
  have "parseEpoch exampleHost [''timestamp-seconds'' \<mapsto> ''10''] [''timestamp-seconds'']
       = (Inr (Some (round_double (1000 * 10))), [''timestamp-seconds''])"
    by blast
  with a b c d e show ?thesis by simp
qed

subsection \<open>The clock\<close>




subsection \<open>Attributes that are not asked for\<close>

text \<open>
  Claim C9. Two elements that agree on every name of the list (value or absence) and on
  \<^verbatim>\<open>offset-seconds\<close> give, on the same host and clock, the same outcome of
  \<^verbatim>\<open>parseDateAttrs\<close>, timestamp or error, and the same reads: no other attribute has a
  part in the result.
\<close>

theorem unrequested_attributes_do_not_matter:
  assumes "map el1 names = map el2 names"
    and "el1 ''offset-seconds'' = el2 ''offset-seconds''"
  shows "parseDateAttrs h el1 names = parseDateAttrs h el2 names"
proof -
  have "parseEpoch h el1 names = parseEpoch h el2 names"
    using assms(1) by (simp add: parseEpoch_def scan_cong split: sum.splits)
  with assms(2) show ?thesis
    by (simp add: parseDateAttrs_def getAttribute_def split: prod.splits sum.splits)
qed

text \<open>Two elements that differ in \<^verbatim>\<open>datetime\<close> and \<^verbatim>\<open>id\<close>, asked for \<^verbatim>\<open>timestamp-ms\<close>.\<close>

theorem unrequested_attributes_do_not_matter_witness:
  "map [''timestamp-ms'' \<mapsto> ''5000'', ''datetime'' \<mapsto> ''soon''] [''timestamp-ms'']
     = map [''timestamp-ms'' \<mapsto> ''5000'', ''id'' \<mapsto> ''x''] [''timestamp-ms'']
   \<and> [''timestamp-ms'' \<mapsto> ''5000'', ''datetime'' \<mapsto> ''soon''] ''offset-seconds''
       = [''timestamp-ms'' \<mapsto> ''5000'', ''id'' \<mapsto> ''x''] ''offset-seconds''
   \<and> parseDateAttrs exampleHost [''timestamp-ms'' \<mapsto> ''5000'', ''datetime'' \<mapsto> ''soon'']
        [''timestamp-ms'']
       = parseDateAttrs exampleHost [''timestamp-ms'' \<mapsto> ''5000'', ''id'' \<mapsto> ''x'']
        [''timestamp-ms'']"
proof -
  let ?el1 = "[''timestamp-ms'' \<mapsto> ''5000'', ''datetime'' \<mapsto> ''soon'']"
  let ?el2 = "[''timestamp-ms'' \<mapsto> ''5000'', ''id'' \<mapsto> ''x'']"
  have a: "map ?el1 [''timestamp-ms''] = map ?el2 [''timestamp-ms'']" by simp
  have b: "?el1 ''offset-seconds'' = ?el2 ''offset-seconds''" by simp
  from unrequested_attributes_do_not_matter [OF a b, of exampleHost] a b
  show ?thesis by blast
qed

subsection \<open>No names\<close>

text \<open>
  Claim C10. On the empty list of names, whatever the element, the resolver returns
  \<^verbatim>\<open>null\<close> and \<^verbatim>\<open>parseDateAttrs\<close> fails with \<open>MissingAttributeError\<close>, its list of
  candidates empty; no attribute is read, \<^verbatim>\<open>offset-seconds\<close> included (the list of reads
  is empty).
\<close>

theorem no_names_is_missing_attribute:
  "parseEpoch h el [] = (Inr None, [])
   \<and> parseDateAttrs h el [] = (Inl (MissingAttributeError []), [])"
  by (simp add: parseDateAttrs_def parseEpoch_def userAssert_def)

end
